theory Spec2Isabelle
  imports Complex_Main
begin

text \<open>
  A model of \<^verbatim>\<open>src/scripts/interaction.js\<close>, the \<^verbatim>\<open>Interaction\<close> class of the
  interactive video: the constructor, \<^verbatim>\<open>createButton\<close>, \<^verbatim>\<open>createPoster\<close>,
  \<^verbatim>\<open>resizeImage\<close>, \<^verbatim>\<open>pause\<close>, \<^verbatim>\<open>isButton\<close>, \<^verbatim>\<open>toggle\<close>,
  \<^verbatim>\<open>positionLabel\<close>, \<^verbatim>\<open>setPosition\<close>, \<^verbatim>\<open>setSize\<close> and \<^verbatim>\<open>remove\<close>. Each is a
  function from the state of the interaction to an outcome and the new state. The page,
  the event dispatcher, the sub-content instances and the timer queue are collaborators:
  what the class does to them is recorded in the state, what it reads from the page is a
  parameter. The click handlers, \<^verbatim>\<open>openDialog\<close> (apart from the image fit),
  \<^verbatim>\<open>addDot\<close> and \<^verbatim>\<open>getCopyrights\<close>, and with them the title and the class string
  computed by the constructor, are not modelled.
\<close>

section \<open>JavaScript values used by the interaction\<close>

text \<open>
  The numeric arguments and fields of \<^verbatim>\<open>interaction.js\<close> are JavaScript numbers, or
  \<^verbatim>\<open>undefined\<close> when an argument or a field is absent. Finite numbers are modelled as
  reals (exact arithmetic: the rounding of IEEE doubles and the sign of zero are not
  modelled); \<^verbatim>\<open>NaN\<close> and the two infinities are values of their own, so that a
  division by zero and a comparison with a non-number behave as in the language.
\<close>

datatype jsnum = Undefined | NaN | Inf bool | Num real

text \<open>\<^verbatim>\<open>a < b\<close> and \<open>a > b\<close>: false as soon as an operand is \<^verbatim>\<open>NaN\<close> or
  \<^verbatim>\<open>undefined\<close> (which converts to \<^verbatim>\<open>NaN\<close>). \<open>Inf True\<close> is \<^verbatim>\<open>+Infinity\<close>.\<close>

fun js_lt :: "jsnum \<Rightarrow> jsnum \<Rightarrow> bool" where
  "js_lt (Num a) (Num b) = (a < b)"
| "js_lt (Num a) (Inf q) = q"
| "js_lt (Inf p) (Num b) = (\<not> p)"
| "js_lt (Inf p) (Inf q) = (\<not> p \<and> q)"
| "js_lt _ _ = False"

definition js_gt :: "jsnum \<Rightarrow> jsnum \<Rightarrow> bool" where
  "js_gt a b = js_lt b a"

text \<open>\<^verbatim>\<open>a <= b\<close>, used to state the visibility window.\<close>

fun js_le :: "jsnum \<Rightarrow> jsnum \<Rightarrow> bool" where
  "js_le (Num a) (Num b) = (a \<le> b)"
| "js_le (Num a) (Inf q) = q"
| "js_le (Inf p) (Num b) = (\<not> p)"
| "js_le (Inf p) (Inf q) = (p \<longrightarrow> q)"
| "js_le _ _ = False"

fun js_add :: "jsnum \<Rightarrow> jsnum \<Rightarrow> jsnum" where
  "js_add (Num a) (Num b) = Num (a + b)"
| "js_add (Num a) (Inf q) = Inf q"
| "js_add (Inf p) (Num b) = Inf p"
| "js_add (Inf p) (Inf q) = (if p = q then Inf p else NaN)"
| "js_add _ _ = NaN"

fun js_mul :: "jsnum \<Rightarrow> jsnum \<Rightarrow> jsnum" where
  "js_mul (Num a) (Num b) = Num (a * b)"
| "js_mul (Num a) (Inf q) = (if a = 0 then NaN else Inf (q = (0 < a)))"
| "js_mul (Inf p) (Num b) = (if b = 0 then NaN else Inf (p = (0 < b)))"
| "js_mul (Inf p) (Inf q) = Inf (p = q)"
| "js_mul _ _ = NaN"

fun js_div :: "jsnum \<Rightarrow> jsnum \<Rightarrow> jsnum" where
  "js_div (Num a) (Num b) =
     (if b = 0 then (if a = 0 then NaN else Inf (0 < a)) else Num (a / b))"
| "js_div (Num a) (Inf q) = Num 0"
| "js_div (Inf p) (Num b) = Inf (p = (0 \<le> b))"
| "js_div (Inf p) (Inf q) = NaN"
| "js_div _ _ = NaN"

text \<open>\<^verbatim>\<open>Math.round\<close>: the nearest integer, halves upwards.\<close>

fun js_round :: "jsnum \<Rightarrow> jsnum" where
  "js_round (Num a) = Num (of_int \<lfloor>a + 1 / 2\<rfloor>)"
| "js_round (Inf p) = Inf p"
| "js_round _ = NaN"

text \<open>The truth value of a number in a condition: zero, \<^verbatim>\<open>NaN\<close> and
  \<^verbatim>\<open>undefined\<close> are false.\<close>

fun truthy :: "jsnum \<Rightarrow> bool" where
  "truthy (Num a) = (a \<noteq> 0)"
| "truthy (Inf p) = True"
| "truthy _ = False"

subsection \<open>\<^verbatim>\<open>parseInt\<close>\<close>

text \<open>
  \<^verbatim>\<open>parseInt(string)\<close> with no radix: leading (ASCII) white space is skipped, then an optional
  sign, then an optional \<^verbatim>\<open>0x\<close> prefix that selects radix 16, then the longest run of
  digits of the radix. Everything after the digits is ignored (the unit \<^verbatim>\<open>px\<close>, a
  fraction); with no digit the result is \<^verbatim>\<open>NaN\<close>.
\<close>

definition is_space :: "char \<Rightarrow> bool" where
  "is_space c = (c \<in> set [CHR '' '', CHR 0x09, CHR 0x0A, CHR 0x0B, CHR 0x0C, CHR 0x0D])"

definition digit_value :: "char \<Rightarrow> nat option" where
  "digit_value c =
     (let n = of_char c :: nat in
      if 48 \<le> n \<and> n \<le> 57 then Some (n - 48)
      else if 97 \<le> n \<and> n \<le> 122 then Some (n - 87)
      else if 65 \<le> n \<and> n \<le> 90 then Some (n - 55)
      else None)"

definition is_digit :: "nat \<Rightarrow> char \<Rightarrow> bool" where
  "is_digit radix c = (case digit_value c of None \<Rightarrow> False | Some d \<Rightarrow> d < radix)"

definition digits_value :: "nat \<Rightarrow> string \<Rightarrow> nat" where
  "digits_value radix ds =
     foldl (\<lambda>acc c. acc * radix + (case digit_value c of None \<Rightarrow> 0 | Some d \<Rightarrow> d)) 0 ds"

definition parseInt :: "string \<Rightarrow> jsnum" where
  "parseInt s =
     (let s1 = dropWhile is_space s;
          neg = (case s1 of c # _ \<Rightarrow> c = CHR ''-'' | [] \<Rightarrow> False);
          s2 = (case s1 of c # cs \<Rightarrow> if c = CHR ''-'' \<or> c = CHR ''+'' then cs else s1
                | [] \<Rightarrow> s1);
          hex = (take 2 s2 = ''0x'' \<or> take 2 s2 = ''0X'');
          radix = (if hex then 16 else 10);
          s3 = (if hex then drop 2 s2 else s2);
          ds = takeWhile (is_digit radix) s3
      in if ds = [] then NaN
         else Num (if neg then - real (digits_value radix ds)
                   else real (digits_value radix ds)))"

section \<open>Data model\<close>

text \<open>
  The \<^verbatim>\<open>parameters\<close> object is owned by the caller and mutated in place by
  \<^verbatim>\<open>setPosition\<close>, \<^verbatim>\<open>setSize\<close> and \<^verbatim>\<open>remove\<close>. \<open>p_from\<close> is the field
  \<^verbatim>\<open>parameters.from\<close> that \<^verbatim>\<open>setSize\<close> reads; no code of the file writes it.
  \<open>p_displayAsButton\<close> is \<open>None\<close> when the field is absent.
\<close>

record parameters =
  p_x :: jsnum
  p_y :: jsnum
  p_width :: jsnum
  p_height :: jsnum
  p_duration_from :: jsnum
  p_duration_to :: jsnum
  p_from :: jsnum
  p_label :: "string option"
  p_displayAsButton :: "bool option"
  p_pause :: bool

record dims =
  d_width :: jsnum
  d_height :: jsnum

text \<open>
  Of \<^verbatim>\<open>parameters.action\<close> the operations below read the library identifier and, for
  the drag question, \<^verbatim>\<open>action.params.question.settings.size\<close>, which \<^verbatim>\<open>remove\<close>
  also writes; \<open>None\<close> when that path is absent from the content.
\<close>

record action =
  a_library :: string
  a_question_size :: "dims option"

text \<open>A visual element: the \<^verbatim>\<open>div\<close> built by \<^verbatim>\<open>createButton\<close> or
  \<^verbatim>\<open>createPoster\<close>, with the style values it is given.\<close>

record elem =
  eid :: nat
  poster :: bool
  css_left :: jsnum
  css_top :: jsnum
  css_width :: jsnum
  css_height :: jsnum

text \<open>The label node of a button and its \<^verbatim>\<open>h5p-left-label\<close> class.\<close>

record label_node =
  label_of :: nat
  left_label :: bool

datatype event = Display elem

text \<open>The callbacks handed to \<^verbatim>\<open>setTimeout(..., 0)\<close>. Both read the closure's
  variable when they run, not when they are scheduled.\<close>

datatype task = RemoveHiddenClass | TriggerResize

datatype error = TypeError

datatype 'a outcome = Throws error | Returns 'a

text \<open>
  The state of one \<^verbatim>\<open>Interaction\<close>: the objects it shares with its caller
  (\<open>parameters\<close>, \<open>action\<close>), the variables of its closure (\<open>library\<close>,
  \<open>interaction\<close> for \<^verbatim>\<open>$interaction\<close>, \<open>label\<close> for \<^verbatim>\<open>$label\<close>, \<open>the_instance\<close>
  for \<^verbatim>\<open>instance\<close>), and what it has done to its collaborators: the number of visual
  elements and of sub-content instances created so far, the elements created and not
  yet removed from the page, the events triggered on the interaction, the instances
  that were sent \<^verbatim>\<open>resize\<close>, and the callbacks waiting for the next tick.
\<close>

record state =
  parameters :: parameters
  action :: action
  library :: string
  interaction :: "elem option"
  label :: "label_node option"
  the_instance :: "nat option"
  created :: nat
  instances :: nat
  live :: "nat list"
  events :: "event list"
  resizes :: "nat list"
  timers :: "task list"

text \<open>
  What the operations read from the page: the computed font size of an element
  (\<^verbatim>\<open>Number($interaction.css('fontSize').replace('px',''))\<close>), the string
  \<^verbatim>\<open>$interaction.css('left')\<close>, the label's \<^verbatim>\<open>position().left\<close> and
  \<^verbatim>\<open>outerWidth()\<close>, and the length of the text of a label's HTML
  (\<^verbatim>\<open>$converter.html(label).text().length\<close>).
\<close>

record page =
  fontSize :: "elem \<Rightarrow> jsnum"
  cssLeft :: "elem \<Rightarrow> string"
  labelLeft :: "label_node \<Rightarrow> jsnum"
  labelOuterWidth :: "label_node \<Rightarrow> jsnum"
  textLength :: "string \<Rightarrow> nat"

section \<open>The constructor\<close>

text \<open>\<^verbatim>\<open>action.library.split(' ')[0]\<close>: the text before the first space.\<close>

definition library_of :: "string \<Rightarrow> string" where
  "library_of s = takeWhile (\<lambda>c. c \<noteq> CHR '' '') s"

definition Interaction :: "parameters \<Rightarrow> action \<Rightarrow> state" where
  "Interaction ps act =
     \<lparr> parameters = ps, action = act, library = library_of (a_library act),
       interaction = None, label = None, the_instance = None,
       created = 0, instances = 0, live = [], events = [], resizes = [], timers = [] \<rparr>"

section \<open>Operations\<close>

definition isButton :: "state \<Rightarrow> bool" where
  "isButton st =
     (p_displayAsButton (parameters st) = None
      \<or> p_displayAsButton (parameters st) = Some True
      \<or> library st = ''H5P.Nil'')"

definition pause :: "state \<Rightarrow> bool" where
  "pause st = p_pause (parameters st)"

text \<open>The label is added for the sentinel type, or when \<^verbatim>\<open>parameters.label\<close> is a
  non-empty string whose HTML has text.\<close>

definition wants_label :: "page \<Rightarrow> state \<Rightarrow> bool" where
  "wants_label pg st =
     (library st = ''H5P.Nil''
      \<or> (case p_label (parameters st) of
            None \<Rightarrow> False
          | Some l \<Rightarrow> l \<noteq> [] \<and> textLength pg l \<noteq> 0))"

definition createButton :: "page \<Rightarrow> state \<Rightarrow> state" where
  "createButton pg st =
     (let e = \<lparr> eid = created st, poster = False,
                css_left = p_x (parameters st), css_top = p_y (parameters st),
                css_width = Undefined, css_height = Undefined \<rparr>;
          st1 = st\<lparr> interaction := Some e, created := created st + 1,
                    live := live st @ [eid e] \<rparr>;
          st2 = (if wants_label pg st1
                 then st1\<lparr> label := Some \<lparr> label_of = eid e, left_label = False \<rparr> \<rparr>
                 else st1)
      in st2\<lparr> events := events st2 @ [Display e],
               timers := timers st2 @ [RemoveHiddenClass] \<rparr>)"

definition createPoster :: "state \<Rightarrow> state" where
  "createPoster st =
     (let w = p_width (parameters st); h = p_height (parameters st);
          e = \<lparr> eid = created st, poster = True,
                css_left = p_x (parameters st), css_top = p_y (parameters st),
                css_width = (if truthy w then w else Num 10),
                css_height = (if truthy h then h else Num 10) \<rparr>
      in st\<lparr> interaction := Some e, created := created st + 1,
              live := live st @ [eid e],
              the_instance := Some (instances st), instances := instances st + 1,
              events := events st @ [Display e],
              timers := timers st @ [TriggerResize] \<rparr>)"

text \<open>
  \<^verbatim>\<open>remove(updateSize)\<close>. Reading \<^verbatim>\<open>action.params.question.settings.size\<close> throws
  when the path is absent; the element is then still on display.
\<close>

definition remove :: "page \<Rightarrow> bool \<Rightarrow> state \<Rightarrow> unit outcome \<times> state" where
  "remove pg updateSize st =
     (case interaction st of
        None \<Rightarrow> (Returns (), st)
      | Some e \<Rightarrow>
          let detach = (\<lambda>s. s\<lparr> live := filter (\<lambda>i. i \<noteq> eid e) (live s),
                                interaction := None \<rparr>)
          in if updateSize \<and> library st = ''H5P.DragQuestion'' then
               (case a_question_size (action st) of
                  None \<Rightarrow> (Throws TypeError, st)
                | Some sz \<Rightarrow>
                    let fs = fontSize pg e in
                    if isButton st then
                      (Returns (),
                       detach (st\<lparr> parameters := (parameters st)
                                 \<lparr> p_width := js_div (d_width sz) fs,
                                   p_height := js_div (d_height sz) fs \<rparr> \<rparr>))
                    else
                      (Returns (),
                       detach (st\<lparr> action := (action st)
                                 \<lparr> a_question_size := Some
                                     \<lparr> d_width = js_round (js_mul (p_width (parameters st)) fs),
                                       d_height = js_round (js_mul (p_height (parameters st)) fs) \<rparr> \<rparr> \<rparr>)))
             else (Returns (), detach st))"

text \<open>\<^verbatim>\<open>toggle(second)\<close> returns the new element when it creates one, and
  \<^verbatim>\<open>undefined\<close> (\<open>None\<close>) on its two early returns.\<close>

definition toggle :: "page \<Rightarrow> jsnum \<Rightarrow> state \<Rightarrow> elem option outcome \<times> state" where
  "toggle pg second st =
     (if js_lt second (p_duration_from (parameters st))
         \<or> js_gt second (p_duration_to (parameters st)) then
        (if interaction st \<noteq> None then
           (case remove pg False st of
              (Throws err, st') \<Rightarrow> (Throws err, st')
            | (Returns _, st') \<Rightarrow> (Returns None, st'))
         else (Returns None, st))
      else if interaction st \<noteq> None then (Returns None, st)
      else
        (let st' = (if isButton st then createButton pg st else createPoster st)
         in (Returns (interaction st'), st')))"

definition positionLabel :: "page \<Rightarrow> jsnum \<Rightarrow> state \<Rightarrow> unit outcome \<times> state" where
  "positionLabel pg width st =
     (if \<not> isButton st \<or> label st = None then (Returns (), st)
      else
        (case label st of
           None \<Rightarrow> (Returns (), st)
         | Some l \<Rightarrow>
             let l1 = l\<lparr> left_label := False \<rparr>;
                 st1 = st\<lparr> label := Some l1 \<rparr>
             in (case interaction st1 of
                   None \<Rightarrow> (Throws TypeError, st1)
                 | Some e \<Rightarrow>
                     if js_gt (js_add (js_add (parseInt (cssLeft pg e)) (labelLeft pg l1))
                                      (labelOuterWidth pg l1)) width
                     then (Returns (), st1\<lparr> label := Some (l1\<lparr> left_label := True \<rparr>) \<rparr>)
                     else (Returns (), st1))))"

definition setPosition :: "jsnum \<Rightarrow> jsnum \<Rightarrow> state \<Rightarrow> state" where
  "setPosition x y st = st\<lparr> parameters := (parameters st)\<lparr> p_x := x, p_y := y \<rparr> \<rparr>"

text \<open>The last statement of \<^verbatim>\<open>setSize\<close>, \<^verbatim>\<open>instance.$.trigger('resize')\<close>: it
  throws when no poster has set \<^verbatim>\<open>instance\<close>.\<close>

definition trigger_resize :: "state \<Rightarrow> unit outcome \<times> state" where
  "trigger_resize st =
     (case the_instance st of
        None \<Rightarrow> (Throws TypeError, st)
      | Some i \<Rightarrow> (Returns (), st\<lparr> resizes := resizes st @ [i] \<rparr>))"

definition setSize :: "page \<Rightarrow> jsnum \<Rightarrow> jsnum \<Rightarrow> state \<Rightarrow> unit outcome \<times> state" where
  "setSize pg width height st =
     (let st1 = st\<lparr> parameters := (parameters st)\<lparr> p_width := width, p_height := height \<rparr> \<rparr>
      in if library st1 = ''H5P.DragQuestion'' then
           (case remove pg True st1 of
              (Throws err, st2) \<Rightarrow> (Throws err, st2)
            | (Returns _, st2) \<Rightarrow>
                (case toggle pg (p_from (parameters st2)) st2 of
                   (Throws err, st3) \<Rightarrow> (Throws err, st3)
                 | (Returns _, st3) \<Rightarrow> trigger_resize st3))
         else trigger_resize st1)"

subsection \<open>Fitting an image into the dialog\<close>

text \<open>
  \<^verbatim>\<open>resizeImage($img, max, size)\<close>: \<open>img_font\<close> is the font size of the image element
  in pixels. The result is the pair of the style written on the image (in em of the
  image's own font size) and the size handed to \<^verbatim>\<open>dialog.position\<close>.
\<close>

definition resizeImage :: "jsnum \<Rightarrow> dims \<Rightarrow> dims \<Rightarrow> dims \<times> dims" where
  "resizeImage img_font mx sz =
     (let fontSize = Num 16;
          s1 = sz\<lparr> d_width := js_div (d_width sz) fontSize \<rparr>;
          s2 = s1\<lparr> d_height := js_div (d_height s1) fontSize \<rparr>;
          s3 = (if js_gt (d_height s2) (d_height mx) then
                  (let a = s2\<lparr> d_width :=
                             js_div (js_mul (d_width s2) (d_height mx)) (d_height s2) \<rparr>
                   in a\<lparr> d_height := d_height mx \<rparr>)
                else s2);
          s4 = (if js_gt (d_width s3) (d_width mx) then
                  (let a = s3\<lparr> d_height :=
                             js_div (js_mul (d_height s3) (d_width mx)) (d_width s3) \<rparr>
                   in a\<lparr> d_width := d_width mx \<rparr>)
                else s3);
          fontSizeRatio = js_div (Num 16) img_font
      in (\<lparr> d_width = js_mul (d_width s4) fontSizeRatio,
            d_height = js_mul (d_height s4) fontSizeRatio \<rparr>, s4))"

section \<open>Notions used in the statements\<close>

text \<open>A value that is a number and not \<^verbatim>\<open>NaN\<close>.\<close>

definition is_number :: "jsnum \<Rightarrow> bool" where
  "is_number v = (case v of Num _ \<Rightarrow> True | Inf _ \<Rightarrow> True | _ \<Rightarrow> False)"

text \<open>The state after \<open>n\<close> calls of \<^verbatim>\<open>toggle\<close> with the same second.\<close>

fun toggle_times :: "page \<Rightarrow> jsnum \<Rightarrow> nat \<Rightarrow> state \<Rightarrow> state" where
  "toggle_times pg second 0 st = st"
| "toggle_times pg second (Suc n) st = toggle_times pg second n (snd (toggle pg second st))"

text \<open>The elements on the page are exactly the one \<^verbatim>\<open>$interaction\<close> holds.\<close>

definition consistent :: "state \<Rightarrow> bool" where
  "consistent st = (live st = (case interaction st of None \<Rightarrow> [] | Some e \<Rightarrow> [eid e]))"

text \<open>
  The scale-to-fit algorithm in the words of the specification (section 4.3, steps 1 to
  3), on real numbers: convert to em by the 16 px baseline; if the height exceeds the
  maximum, scale both dimensions so that the height is the maximum
  (\<^verbatim>\<open>size.width *= max.height/size.height\<close>); then, if the width exceeds the maximum,
  scale both so that the width is the maximum. It is compared below with
  \<open>resizeImage\<close>, which is the code.
\<close>

definition spec_fit :: "real \<times> real \<Rightarrow> real \<times> real \<Rightarrow> real \<times> real" where
  "spec_fit mx px =
     (let (mw, mh) = mx; (w, h) = px;
          sw = w / 16; sh = h / 16;
          (sw1, sh1) = (if sh > mh then (sw * (mh / sh), mh) else (sw, sh));
          (sw2, sh2) = (if sw1 > mw then (mw, sh1 * (mw / sw1)) else (sw1, sh1))
      in (sw2, sh2))"

subsection \<open>Example inputs\<close>

text \<open>A page on which every element has a 16 px font and the button sits at
  \<^verbatim>\<open>107.5px\<close>, with a label 80 px wide at offset 30.\<close>

definition example_page :: page where
  "example_page =
     \<lparr> fontSize = (\<lambda>e. Num 16), cssLeft = (\<lambda>e. ''107.5px''),
       labelLeft = (\<lambda>l. Num 30), labelOuterWidth = (\<lambda>l. Num 80),
       textLength = length \<rparr>"

text \<open>An interaction visible from second 5 to second 10, with a label and no
  \<^verbatim>\<open>displayAsButton\<close> field; and the same one declared a poster.\<close>

definition example_parameters :: parameters where
  "example_parameters =
     \<lparr> p_x = Num 10, p_y = Num 20, p_width = Undefined, p_height = Undefined,
       p_duration_from = Num 5, p_duration_to = Num 10, p_from = Undefined,
       p_label = Some ''Hint'', p_displayAsButton = None, p_pause = False \<rparr>"

definition poster_parameters :: parameters where
  "poster_parameters = example_parameters\<lparr> p_displayAsButton := Some False \<rparr>"

definition text_action :: action where
  "text_action = \<lparr> a_library = ''H5P.Text 1.1'', a_question_size = None \<rparr>"

definition nil_action :: action where
  "nil_action = \<lparr> a_library = ''H5P.Nil 1.0'', a_question_size = None \<rparr>"

definition drag_action :: action where
  "drag_action =
     \<lparr> a_library = ''H5P.DragQuestion 1.0'',
       a_question_size = Some \<lparr> d_width = Num 620, d_height = Num 310 \<rparr> \<rparr>"

definition example_button :: elem where
  "example_button =
     \<lparr> eid = 0, poster = False, css_left = Num 10, css_top = Num 20,
       css_width = Undefined, css_height = Undefined \<rparr>"

text \<open>The three interactions at second 7, after their first \<^verbatim>\<open>toggle\<close>.\<close>

definition shown_button :: state where
  "shown_button = snd (toggle example_page (Num 7) (Interaction example_parameters text_action))"

definition shown_poster :: state where
  "shown_poster = snd (toggle example_page (Num 7) (Interaction poster_parameters text_action))"

definition shown_drag_poster :: state where
  "shown_drag_poster =
     snd (toggle example_page (Num 7) (Interaction poster_parameters drag_action))"

section \<open>Basic facts\<close>

lemma js_lt_nonnum [simp]:
  "js_lt Undefined b = False" "js_lt NaN b = False"
  "js_lt a Undefined = False" "js_lt a NaN = False"
  by (cases a; cases b; simp)+

lemma js_lt_iff_not_le:
  "is_number a \<Longrightarrow> is_number b \<Longrightarrow> js_lt a b = (\<not> js_le b a)"
  by (cases a; cases b) (auto simp: is_number_def)

lemma js_le_not_lt: "js_le a b \<Longrightarrow> \<not> js_lt b a"
  by (cases a; cases b) auto

lemma remove_plain:
  "remove pg False st =
     (Returns (), case interaction st of None \<Rightarrow> st
        | Some e \<Rightarrow> st\<lparr> live := filter (\<lambda>i. i \<noteq> eid e) (live st), interaction := None \<rparr>)"
  by (simp add: remove_def split: option.splits)

lemma remove_clears:
  "fst (remove pg u st) = Returns () \<Longrightarrow> interaction (snd (remove pg u st)) = None"
  by (auto simp: remove_def Let_def split: option.splits if_splits)

lemma remove_keeps:
  "label (snd (remove pg u st)) = label st"
  "library (snd (remove pg u st)) = library st"
  "p_displayAsButton (parameters (snd (remove pg u st))) = p_displayAsButton (parameters st)"
  "p_from (parameters (snd (remove pg u st))) = p_from (parameters st)"
  "the_instance (snd (remove pg u st)) = the_instance st"
  "resizes (snd (remove pg u st)) = resizes st"
  "timers (snd (remove pg u st)) = timers st"
  "instances (snd (remove pg u st)) = instances st"
  "created (snd (remove pg u st)) = created st"
  "events (snd (remove pg u st)) = events st"
  by (auto simp: remove_def Let_def split: option.splits if_splits)

lemma isButton_remove: "isButton (snd (remove pg u st)) = isButton st"
  by (simp add: isButton_def remove_keeps)

lemma toggle_created:
  "interaction st = None \<Longrightarrow> \<not> js_lt second (p_duration_from (parameters st)) \<Longrightarrow>
   \<not> js_gt second (p_duration_to (parameters st)) \<Longrightarrow>
   \<exists>e. fst (toggle pg second st) = Returns (Some e)
     \<and> interaction (snd (toggle pg second st)) = Some e
     \<and> eid e = created st \<and> poster e = (\<not> isButton st)
     \<and> events (snd (toggle pg second st)) = events st @ [Display e]
     \<and> created (snd (toggle pg second st)) = created st + 1
     \<and> live (snd (toggle pg second st)) = live st @ [created st]
     \<and> parameters (snd (toggle pg second st)) = parameters st"
  by (simp add: toggle_def createButton_def createPoster_def Let_def)

lemma toggle_not_created:
  "\<not> (interaction st = None \<and> \<not> js_lt second (p_duration_from (parameters st)) \<and>
   \<not> js_gt second (p_duration_to (parameters st))) \<Longrightarrow>
   fst (toggle pg second st) = Returns None
     \<and> events (snd (toggle pg second st)) = events st
     \<and> created (snd (toggle pg second st)) = created st
     \<and> parameters (snd (toggle pg second st)) = parameters st"
  by (auto simp: toggle_def remove_plain split: option.splits)

lemma toggle_in_window_existing:
  "interaction st \<noteq> None \<Longrightarrow> \<not> js_lt second (p_duration_from (parameters st)) \<Longrightarrow>
   \<not> js_gt second (p_duration_to (parameters st)) \<Longrightarrow>
   toggle pg second st = (Returns None, st)"
  by (simp add: toggle_def)

lemma toggle_out:
  "js_lt second (p_duration_from (parameters st)) \<or> js_gt second (p_duration_to (parameters st)) \<Longrightarrow>
   toggle pg second st =
     (Returns None, case interaction st of None \<Rightarrow> st
        | Some e \<Rightarrow> st\<lparr> live := filter (\<lambda>i. i \<noteq> eid e) (live st), interaction := None \<rparr>)"
  by (auto simp: toggle_def remove_plain split: option.splits)

lemma toggle_times_fixed:
  "interaction st \<noteq> None \<Longrightarrow> \<not> js_lt second (p_duration_from (parameters st)) \<Longrightarrow>
   \<not> js_gt second (p_duration_to (parameters st)) \<Longrightarrow> toggle_times pg second n st = st"
  by (induction n) (simp_all add: toggle_in_window_existing)

lemma toggle_times_created:
  assumes "\<not> js_lt second (p_duration_from (parameters st))"
    and "\<not> js_gt second (p_duration_to (parameters st))"
  shows "created (toggle_times pg second n st) \<le> created st + 1"
proof (cases n)
  case 0
  then show ?thesis by simp
next
  case (Suc m)
  let ?st1 = "snd (toggle pg second st)"
  show ?thesis
  proof (cases "interaction st")
    case None
    with assms obtain e where e: "interaction ?st1 = Some e" "created ?st1 = created st + 1"
      "parameters ?st1 = parameters st"
      using toggle_created[of st second pg] by blast
    with assms have "toggle_times pg second m ?st1 = ?st1"
      by (intro toggle_times_fixed) simp_all
    with Suc e show ?thesis by simp
  next
    case (Some e)
    with assms have "toggle pg second st = (Returns None, st)"
      by (intro toggle_in_window_existing) simp_all
    moreover from Some assms have "toggle_times pg second m st = st"
      by (intro toggle_times_fixed) simp_all
    ultimately show ?thesis using Suc by simp
  qed
qed

lemma positionLabel_throws:
  "isButton st \<Longrightarrow> label st \<noteq> None \<Longrightarrow> interaction st = None \<Longrightarrow>
   fst (positionLabel pg w st) = Throws TypeError"
  by (auto simp: positionLabel_def Let_def split: option.splits)

lemma toggle_creates_label:
  "isButton st \<Longrightarrow> wants_label pg st \<Longrightarrow> interaction st = None \<Longrightarrow>
   \<not> js_lt second (p_duration_from (parameters st)) \<Longrightarrow>
   \<not> js_gt second (p_duration_to (parameters st)) \<Longrightarrow>
   label (snd (toggle pg second st)) = Some \<lparr> label_of = created st, left_label = False \<rparr>
   \<and> isButton (snd (toggle pg second st))"
  by (simp add: toggle_def createButton_def Let_def wants_label_def isButton_def)

lemma toggle_never_throws: "\<exists>r. fst (toggle pg second st) = Returns r"
  by (auto simp: toggle_def remove_plain Let_def)

lemma toggle_keeps:
  "resizes (snd (toggle pg second st)) = resizes st"
  by (auto simp: toggle_def remove_plain createButton_def createPoster_def Let_def split: option.splits)

lemma trigger_resize_cases:
  "trigger_resize st = (r, st') \<Longrightarrow>
     (case r of Returns _ \<Rightarrow> \<exists>i. the_instance st' = Some i \<and> resizes st' = resizes st @ [i]
              | Throws _ \<Rightarrow> resizes st' = resizes st)"
  by (auto simp: trigger_resize_def split: option.splits)

lemma setSize_other:
  "library st \<noteq> ''H5P.DragQuestion'' \<Longrightarrow>
   setSize pg w h st =
     trigger_resize (st\<lparr> parameters := (parameters st)\<lparr> p_width := w, p_height := h \<rparr> \<rparr>)"
  by (simp add: setSize_def Let_def)

lemma setSize_notifies:
  assumes "setSize pg w h st = (r, st')"
  shows "case r of Returns _ \<Rightarrow> \<exists>i. the_instance st' = Some i \<and> resizes st' = resizes st @ [i]
              | Throws _ \<Rightarrow> resizes st' = resizes st"
proof (cases "library st = ''H5P.DragQuestion''")
  case False
  with assms have "trigger_resize (st\<lparr> parameters := (parameters st)\<lparr> p_width := w, p_height := h \<rparr> \<rparr>) = (r, st')"
    by (simp add: setSize_other)
  from trigger_resize_cases[OF this] show ?thesis by (cases r) simp_all
next
  case True
  let ?st1 = "st\<lparr> parameters := (parameters st)\<lparr> p_width := w, p_height := h \<rparr> \<rparr>"
  obtain r2 st2 where r2: "remove pg True ?st1 = (r2, st2)" by (cases "remove pg True ?st1")
  have k2: "resizes st2 = resizes st"
    using remove_keeps(6)[of pg True ?st1] r2 by simp
  show ?thesis
  proof (cases r2)
    case (Throws err)
    with assms True r2 k2 show ?thesis by (auto simp: setSize_def Let_def)
  next
    case (Returns u)
    obtain r3 st3 where r3: "toggle pg (p_from (parameters st2)) st2 = (r3, st3)"
      by (cases "toggle pg (p_from (parameters st2)) st2")
    have k3: "resizes st3 = resizes st"
      using toggle_keeps[of pg "p_from (parameters st2)" st2] r3 k2 by simp
    obtain v where "r3 = Returns v"
      using toggle_never_throws[of pg "p_from (parameters st2)" st2] r3 by auto
    with assms True r2 Returns r3 have "trigger_resize st3 = (r, st')"
      by (simp add: setSize_def Let_def)
    from trigger_resize_cases[OF this] k3 show ?thesis by (cases r) simp_all
  qed
qed

lemma remove_returns:
  "interaction st = None \<or> a_question_size (action st) \<noteq> None \<Longrightarrow>
   fst (remove pg u st) = Returns ()"
  by (auto simp: remove_def Let_def split: option.splits)

lemma toggle_creates_poster:
  "\<not> isButton st \<Longrightarrow> interaction st = None \<Longrightarrow>
   \<not> js_lt second (p_duration_from (parameters st)) \<Longrightarrow>
   \<not> js_gt second (p_duration_to (parameters st)) \<Longrightarrow>
   the_instance (snd (toggle pg second st)) = Some (instances st)
   \<and> timers (snd (toggle pg second st)) = timers st @ [TriggerResize]"
  by (simp add: toggle_def createPoster_def Let_def)

lemma setSize_drag:
  assumes lib: "library st = ''H5P.DragQuestion''"
    and nn: "p_from (parameters st) = Undefined \<or> p_from (parameters st) = NaN"
    and ok: "interaction st = None \<or> a_question_size (action st) \<noteq> None"
  shows "interaction (snd (setSize pg w h st)) \<noteq> None
       \<and> created (snd (setSize pg w h st)) = created st + 1
       \<and> (\<not> isButton st \<longrightarrow>
             fst (setSize pg w h st) = Returns ()
           \<and> the_instance (snd (setSize pg w h st)) = Some (instances st)
           \<and> resizes (snd (setSize pg w h st)) = resizes st @ [instances st]
           \<and> timers (snd (setSize pg w h st)) = timers st @ [TriggerResize])"
proof -
  let ?st1 = "st\<lparr> parameters := (parameters st)\<lparr> p_width := w, p_height := h \<rparr> \<rparr>"
  let ?st2 = "snd (remove pg True ?st1)"
  let ?s = "p_from (parameters ?st2)"
  let ?st3 = "snd (toggle pg ?s ?st2)"
  from ok have f2: "fst (remove pg True ?st1) = Returns ()"
    by (intro remove_returns) simp
  then have r2: "remove pg True ?st1 = (Returns (), ?st2)"
    by (metis prod.collapse)
  have i2: "interaction ?st2 = None"
    by (rule remove_clears[OF f2])
  have s: "?s = p_from (parameters st)"
    by (simp add: remove_keeps)
  with nn have w: "\<not> js_lt ?s (p_duration_from (parameters ?st2))"
    "\<not> js_gt ?s (p_duration_to (parameters ?st2))"
    by (auto simp: js_gt_def)
  from toggle_created[OF i2 w, of pg] obtain e where
    e: "fst (toggle pg ?s ?st2) = Returns (Some e)" "interaction ?st3 = Some e"
       "created ?st3 = created ?st2 + 1"
    by blast
  from e(1) have r3: "toggle pg ?s ?st2 = (Returns (Some e), ?st3)"
    by (metis prod.collapse)
  have eq: "setSize pg w h st = trigger_resize ?st3"
    using lib f2 e(1) by (auto simp: setSize_def Let_def split: prod.splits outcome.splits)
  have c: "created ?st2 = created st" by (simp add: remove_keeps)
  have part1: "interaction (snd (setSize pg w h st)) \<noteq> None
       \<and> created (snd (setSize pg w h st)) = created st + 1"
    using e c by (simp add: eq trigger_resize_def split: option.splits)
  have part2: "fst (setSize pg w h st) = Returns ()
           \<and> the_instance (snd (setSize pg w h st)) = Some (instances st)
           \<and> resizes (snd (setSize pg w h st)) = resizes st @ [instances st]
           \<and> timers (snd (setSize pg w h st)) = timers st @ [TriggerResize]"
    if nb: "\<not> isButton st"
  proof -
    have "\<not> isButton ?st2" using nb by (simp add: isButton_remove) (simp add: isButton_def)
    from toggle_creates_poster[OF this i2 w, of pg]
    have "the_instance ?st3 = Some (instances st)" "timers ?st3 = timers st @ [TriggerResize]"
      by (simp_all add: remove_keeps)
    moreover have "resizes ?st3 = resizes st" by (simp add: toggle_keeps remove_keeps)
    ultimately show ?thesis by (simp add: eq trigger_resize_def)
  qed
  from part1 part2 show ?thesis by blast
qed

lemma toggle_keeps_instance:
  "the_instance st \<noteq> None \<Longrightarrow> the_instance (snd (toggle pg second st)) \<noteq> None"
  by (auto simp: toggle_def remove_plain createButton_def createPoster_def Let_def
      split: option.splits)

lemma setSize_returns:
  assumes inst: "the_instance st \<noteq> None"
    and ok: "library st = ''H5P.DragQuestion'' \<longrightarrow>
               interaction st = None \<or> a_question_size (action st) \<noteq> None"
  shows "fst (setSize pg w h st) = Returns ()"
proof (cases "library st = ''H5P.DragQuestion''")
  case False
  with inst show ?thesis
    by (auto simp: setSize_other trigger_resize_def)
next
  case True
  let ?st1 = "st\<lparr> parameters := (parameters st)\<lparr> p_width := w, p_height := h \<rparr> \<rparr>"
  let ?st2 = "snd (remove pg True ?st1)"
  let ?st3 = "snd (toggle pg (p_from (parameters ?st2)) ?st2)"
  from ok True have f2: "fst (remove pg True ?st1) = Returns ()"
    by (intro remove_returns) simp
  obtain v where f3: "fst (toggle pg (p_from (parameters ?st2)) ?st2) = Returns v"
    using toggle_never_throws by blast
  have eq: "setSize pg w h st = trigger_resize ?st3"
    using True f2 f3 by (auto simp: setSize_def Let_def split: prod.splits outcome.splits)
  from inst have "the_instance ?st2 \<noteq> None" by (simp add: remove_keeps)
  then have "the_instance ?st3 \<noteq> None" by (rule toggle_keeps_instance)
  then show ?thesis by (auto simp: eq trigger_resize_def)
qed

lemma scaled_le:
  fixes a m k :: real
  assumes "m < k" and "a \<noteq> 0 \<longrightarrow> (0 < a) = (0 < k)" and "k \<noteq> 0"
  shows "a * m / k \<le> a"
proof (cases "a = 0")
  case True
  then show ?thesis by simp
next
  case False
  show ?thesis
  proof (cases "0 < a")
    case True
    with assms False have "0 < k" by simp
    with assms have "m / k \<le> 1" by simp
    with True have "a * (m / k) \<le> a * 1" by (intro mult_left_mono) simp_all
    then show ?thesis by simp
  next
    case neg: False
    with False have a: "a < 0" by simp
    with assms False have "k < 0" by auto
    with assms have "1 \<le> m / k" by (simp add: le_divide_eq_1)
    with a have "a * (m / k) \<le> a * 1" by (intro mult_left_mono_neg) simp_all
    then show ?thesis by simp
  qed
qed

lemma resizeImage_final:
  assumes w: "0 < w" and h: "0 < h" and nd: "mh = 0 \<longrightarrow> 0 \<le> mw"
  shows "\<exists>rw rh.
      snd (resizeImage f \<lparr> d_width = Num mw, d_height = Num mh \<rparr>
                         \<lparr> d_width = Num w, d_height = Num h \<rparr>)
        = \<lparr> d_width = Num rw, d_height = Num rh \<rparr>
      \<and> rw \<le> mw \<and> rh \<le> mh \<and> rw * h = rh * w
      \<and> (rw, rh) = spec_fit (mw, mh) (w, h)"
proof (cases "mh < h / 16")
  case True
  define k where "k = w / 16 * mh / (h / 16)"
  have kh: "k * h = mh * w" using h by (simp add: k_def)
  show ?thesis
  proof (cases "mw < k")
    case k: True
    have k0: "k \<noteq> 0"
    proof
      assume "k = 0"
      with w h have "mh = 0" by (simp add: k_def)
      with nd k \<open>k = 0\<close> show False by simp
    qed
    have sg: "mh \<noteq> 0 \<longrightarrow> (0 < mh) = (0 < k)"
      using w h by (auto simp: k_def zero_less_mult_iff zero_less_divide_iff)
    have le: "mh * mw / k \<le> mh" using k sg k0 by (rule scaled_le)
    have asp: "mw * h = mh * mw / k * w"
    proof -
      have "mh * mw / k * w = mw * (mh * w) / k" by simp
      also have "\<dots> = mw * (k * h) / k" by (simp add: kh)
      also have "\<dots> = mw * h" using k0 by simp
      finally show ?thesis by simp
    qed
    have val: "snd (resizeImage f \<lparr> d_width = Num mw, d_height = Num mh \<rparr>
                         \<lparr> d_width = Num w, d_height = Num h \<rparr>)
        = \<lparr> d_width = Num mw, d_height = Num (mh * mw / k) \<rparr>"
      using True k k0 h unfolding k_def
      by (simp add: resizeImage_def Let_def js_gt_def)
    have sp: "(mw, mh * mw / k) = spec_fit (mw, mh) (w, h)"
      using True k unfolding k_def by (simp add: spec_fit_def Let_def)
    from val le asp sp show ?thesis by blast
  next
    case k: False
    have val: "snd (resizeImage f \<lparr> d_width = Num mw, d_height = Num mh \<rparr>
                         \<lparr> d_width = Num w, d_height = Num h \<rparr>)
        = \<lparr> d_width = Num k, d_height = Num mh \<rparr>"
      using True k h unfolding k_def
      by (simp add: resizeImage_def Let_def js_gt_def)
    have sp: "(k, mh) = spec_fit (mw, mh) (w, h)"
      using True k unfolding k_def by (simp add: spec_fit_def Let_def)
    from k have "k \<le> mw" "mh \<le> mh" by simp_all
    with val kh sp show ?thesis by blast
  qed
next
  case False
  then have hm: "h / 16 \<le> mh" by simp
  have sw: "0 < w / 16" and sh: "0 < h / 16" using w h by simp_all
  show ?thesis
  proof (cases "mw < w / 16")
    case k: True
    have "h / 16 * mw / (w / 16) \<le> h / 16"
      using k sw sh by (intro scaled_le) auto
    then have le: "h / 16 * mw / (w / 16) \<le> mh" using hm by (rule order_trans)
    have asp: "mw * h = h / 16 * mw / (w / 16) * w" using w by simp
    have val: "snd (resizeImage f \<lparr> d_width = Num mw, d_height = Num mh \<rparr>
                         \<lparr> d_width = Num w, d_height = Num h \<rparr>)
        = \<lparr> d_width = Num mw, d_height = Num (h / 16 * mw / (w / 16)) \<rparr>"
      using False k w by (simp add: resizeImage_def Let_def js_gt_def)
    have sp: "(mw, h / 16 * mw / (w / 16)) = spec_fit (mw, mh) (w, h)"
      using False k by (simp add: spec_fit_def Let_def)
    from val le asp sp show ?thesis by blast
  next
    case k: False
    have val: "snd (resizeImage f \<lparr> d_width = Num mw, d_height = Num mh \<rparr>
                         \<lparr> d_width = Num w, d_height = Num h \<rparr>)
        = \<lparr> d_width = Num (w / 16), d_height = Num (h / 16) \<rparr>"
      using False k by (simp add: resizeImage_def Let_def js_gt_def)
    have sp: "(w / 16, h / 16) = spec_fit (mw, mh) (w, h)"
      using False k by (simp add: spec_fit_def Let_def)
    have asp: "w / 16 * h = h / 16 * w" by simp
    from k have "w / 16 \<le> mw" by simp
    with val hm asp sp show ?thesis by blast
  qed
qed

subsection \<open>The example states\<close>

lemma example_library:
  "library_of ''H5P.Text 1.1'' = ''H5P.Text''"
  "library_of ''H5P.Nil 1.0'' = ''H5P.Nil''"
  "library_of ''H5P.DragQuestion 1.0'' = ''H5P.DragQuestion''"
  by (simp_all add: library_of_def)

lemma shown_button_value:
  "shown_button =
     \<lparr> parameters = example_parameters, action = text_action, library = ''H5P.Text'',
       interaction = Some example_button,
       label = Some \<lparr> label_of = 0, left_label = False \<rparr>, the_instance = None,
       created = 1, instances = 0, live = [0], events = [Display example_button],
       resizes = [], timers = [RemoveHiddenClass] \<rparr>"
  by (simp add: shown_button_def toggle_def Interaction_def example_parameters_def
      text_action_def example_library isButton_def createButton_def wants_label_def
      example_page_def example_button_def js_gt_def Let_def)

lemma shown_poster_value:
  "shown_poster =
     \<lparr> parameters = poster_parameters, action = text_action, library = ''H5P.Text'',
       interaction = Some (example_button\<lparr> poster := True, css_width := Num 10,
                                             css_height := Num 10 \<rparr>),
       label = None, the_instance = Some 0,
       created = 1, instances = 1, live = [0],
       events = [Display (example_button\<lparr> poster := True, css_width := Num 10,
                                             css_height := Num 10 \<rparr>)],
       resizes = [], timers = [TriggerResize] \<rparr>"
  by (simp add: shown_poster_def toggle_def Interaction_def poster_parameters_def
      example_parameters_def text_action_def example_library isButton_def createPoster_def
      example_button_def js_gt_def Let_def)

lemma shown_drag_poster_value:
  "shown_drag_poster =
     \<lparr> parameters = poster_parameters, action = drag_action,
       library = ''H5P.DragQuestion'',
       interaction = Some (example_button\<lparr> poster := True, css_width := Num 10,
                                             css_height := Num 10 \<rparr>),
       label = None, the_instance = Some 0,
       created = 1, instances = 1, live = [0],
       events = [Display (example_button\<lparr> poster := True, css_width := Num 10,
                                             css_height := Num 10 \<rparr>)],
       resizes = [], timers = [TriggerResize] \<rparr>"
  by (simp add: shown_drag_poster_def toggle_def Interaction_def poster_parameters_def
      example_parameters_def drag_action_def example_library isButton_def createPoster_def
      example_button_def js_gt_def Let_def)

lemma consistent_Interaction: "consistent (Interaction ps act)"
  by (simp add: consistent_def Interaction_def)

lemma consistent_remove: "consistent st \<Longrightarrow> consistent (snd (remove pg u st))"
  by (auto simp: consistent_def remove_def Let_def split: option.splits)

section \<open>The visibility window\<close>

text \<open>
  Claim C1. For every second \<open>s\<close> (a number, like the two ends of the window), after
  \<^verbatim>\<open>toggle(s)\<close> a visual element exists if and only if
  \<^verbatim>\<open>duration.from <= s <= duration.to\<close>, whatever the state the call starts from, and
  the call does not throw. Calling \<^verbatim>\<open>toggle\<close> any number of times with the same
  in-window second creates at most one element. When the page held exactly the element
  of \<^verbatim>\<open>$interaction\<close> before the call, it holds one element afterwards inside the
  window and none outside.
\<close>

theorem toggle_visible_iff_in_window:
  assumes "is_number second"
    and "is_number (p_duration_from (parameters st))"
    and "is_number (p_duration_to (parameters st))"
  shows "((interaction (snd (toggle pg second st)) \<noteq> None) =
            (js_le (p_duration_from (parameters st)) second
             \<and> js_le second (p_duration_to (parameters st))))
       \<and> (\<exists>r. fst (toggle pg second st) = Returns r)
       \<and> (js_le (p_duration_from (parameters st)) second
             \<and> js_le second (p_duration_to (parameters st))
           \<longrightarrow> created (toggle_times pg second n st) \<le> created st + 1)
       \<and> (consistent st \<longrightarrow>
             consistent (snd (toggle pg second st))
           \<and> length (live (snd (toggle pg second st))) =
               (if js_le (p_duration_from (parameters st)) second
                   \<and> js_le second (p_duration_to (parameters st)) then 1 else 0))"
proof (cases "js_le (p_duration_from (parameters st)) second
             \<and> js_le second (p_duration_to (parameters st))")
  case True
  then have w: "\<not> js_lt second (p_duration_from (parameters st))"
      "\<not> js_gt second (p_duration_to (parameters st))"
    by (simp_all add: js_gt_def js_le_not_lt)
  have c: "created (toggle_times pg second n st) \<le> created st + 1"
    using w by (rule toggle_times_created)
  show ?thesis
  proof (cases "interaction st")
    case None
    with w obtain e where "fst (toggle pg second st) = Returns (Some e)"
      "interaction (snd (toggle pg second st)) = Some e" "eid e = created st"
      "live (snd (toggle pg second st)) = live st @ [created st]"
      using toggle_created[of st second pg] by blast
    with True c None show ?thesis by (auto simp: consistent_def)
  next
    case (Some e)
    with w have "toggle pg second st = (Returns None, st)"
      by (intro toggle_in_window_existing) simp_all
    with True c Some show ?thesis by (simp add: consistent_def)
  qed
next
  case False
  with assms have "js_lt second (p_duration_from (parameters st))
      \<or> js_gt second (p_duration_to (parameters st))"
    by (auto simp: js_gt_def js_lt_iff_not_le)
  from toggle_out[OF this, of pg] False show ?thesis
    by (auto simp: consistent_def split: option.splits)
qed

theorem toggle_visible_iff_in_window_witness:
  "interaction (snd (toggle example_page (Num 7) shown_button)) \<noteq> None
   \<and> created (toggle_times example_page (Num 7) 3 shown_button) \<le> 2
   \<and> length (live (snd (toggle example_page (Num 7) shown_button))) = 1"
proof -
  have n: "is_number (Num 7)" "is_number (p_duration_from (parameters shown_button))"
    "is_number (p_duration_to (parameters shown_button))"
    by (simp_all add: is_number_def shown_button_value example_parameters_def)
  have c: "consistent shown_button"
    by (simp add: consistent_def shown_button_value example_button_def)
  have v: "p_duration_from (parameters shown_button) = Num 5"
    "p_duration_to (parameters shown_button) = Num 10" "created shown_button = 1"
    by (simp_all add: shown_button_value example_parameters_def)
  from toggle_visible_iff_in_window[OF n, of example_page 3] c show ?thesis
    by (simp add: v)
qed

text \<open>
  Claim C2, as amended. When \<^verbatim>\<open>toggle(second)\<close> is called with \<open>second\<close> inside the
  window and a visual element already exists, the call changes nothing and returns
  nothing: the early return \<^verbatim>\<open>return; // Interaction already on display\<close> yields
  \<^verbatim>\<open>undefined\<close>, not the existing handle.
\<close>

theorem toggle_existing_is_noop:
  assumes "interaction st = Some e"
    and "js_le (p_duration_from (parameters st)) second"
    and "js_le second (p_duration_to (parameters st))"
  shows "toggle pg second st = (Returns None, st)"
  using assms by (simp add: toggle_def js_gt_def js_le_not_lt)

theorem toggle_existing_is_noop_witness:
  "interaction shown_button = Some example_button
   \<and> toggle example_page (Num 7) shown_button = (Returns None, shown_button)"
proof -
  have a: "interaction shown_button = Some example_button"
    and b: "js_le (p_duration_from (parameters shown_button)) (Num 7)"
    and c: "js_le (Num 7) (p_duration_to (parameters shown_button))"
    by (simp_all add: shown_button_value example_parameters_def)
  from a toggle_existing_is_noop[OF a b c] show ?thesis by simp
qed

text \<open>The claim as it was stated fails: at second 7 the button of the example is on
  display, the second is inside the window from 5 to 10, and the call does not
  return the handle.\<close>

theorem toggle_existing_returns_handle_counterexample:
  "interaction shown_button = Some example_button
   \<and> js_le (p_duration_from (parameters shown_button)) (Num 7)
   \<and> js_le (Num 7) (p_duration_to (parameters shown_button))
   \<and> fst (toggle example_page (Num 7) shown_button) = Returns None
   \<and> fst (toggle example_page (Num 7) shown_button) \<noteq> Returns (interaction shown_button)"
  by (simp add: toggle_def js_gt_def shown_button_value example_parameters_def)

text \<open>
  Claim C6. When \<^verbatim>\<open>toggle\<close> creates a visual element (there was none and the second
  is not outside the window), the \<^verbatim>\<open>display\<close> event is triggered exactly once within
  the call, with the new element, which is also the value returned and a poster
  exactly when \<^verbatim>\<open>isButton()\<close> is false. In every other case (the element is destroyed,
  left alone, or there is nothing to do) the call triggers no event and creates nothing.
\<close>

theorem toggle_display_event:
  assumes "toggle pg second st = (r, st')"
  shows "if interaction st = None \<and> \<not> js_lt second (p_duration_from (parameters st))
            \<and> \<not> js_gt second (p_duration_to (parameters st))
         then \<exists>e. r = Returns (Some e) \<and> interaction st' = Some e \<and> eid e = created st
                \<and> poster e = (\<not> isButton st)
                \<and> events st' = events st @ [Display e] \<and> created st' = created st + 1
         else r = Returns None \<and> events st' = events st \<and> created st' = created st"
proof (cases "interaction st = None \<and> \<not> js_lt second (p_duration_from (parameters st))
            \<and> \<not> js_gt second (p_duration_to (parameters st))")
  case True
  then obtain e where "fst (toggle pg second st) = Returns (Some e)"
     "interaction (snd (toggle pg second st)) = Some e"
     "eid e = created st" "poster e = (\<not> isButton st)"
     "events (snd (toggle pg second st)) = events st @ [Display e]"
     "created (snd (toggle pg second st)) = created st + 1"
    using toggle_created[of st second pg] by blast
  with True assms show ?thesis by auto
next
  case False
  from toggle_not_created[OF False, of pg] assms False show ?thesis by auto
qed

theorem toggle_display_event_witness:
  "(\<exists>e. fst (toggle example_page (Num 7) (Interaction example_parameters text_action))
          = Returns (Some e)
       \<and> events (snd (toggle example_page (Num 7)
                        (Interaction example_parameters text_action))) = [Display e])
   \<and> events (snd (toggle example_page (Num 12) shown_button)) = events shown_button"
proof -
  let ?st = "Interaction example_parameters text_action"
  have p: "toggle example_page (Num 7) ?st
             = (fst (toggle example_page (Num 7) ?st), snd (toggle example_page (Num 7) ?st))"
    and q: "toggle example_page (Num 12) shown_button
             = (fst (toggle example_page (Num 12) shown_button),
                snd (toggle example_page (Num 12) shown_button))"
    by simp_all
  have v: "interaction ?st = None" "p_duration_from (parameters ?st) = Num 5"
    "p_duration_to (parameters ?st) = Num 10" "events ?st = []"
    by (simp_all add: Interaction_def example_parameters_def)
  have u: "p_duration_to (parameters shown_button) = Num 10"
    by (simp add: shown_button_value example_parameters_def)
  from toggle_display_event[OF p] toggle_display_event[OF q] show ?thesis
    by (auto simp: v u js_gt_def)
qed

section \<open>Button or poster\<close>

text \<open>
  Claim C5. \<^verbatim>\<open>isButton()\<close> returns false exactly when \<^verbatim>\<open>displayAsButton\<close> is
  explicitly false and the content type is not the sentinel \<^verbatim>\<open>H5P.Nil\<close>. In
  particular it returns true whenever \<^verbatim>\<open>displayAsButton\<close> is absent, and always for
  the sentinel type.
\<close>

theorem isButton_false_iff:
  "(isButton st = False) =
     (p_displayAsButton (parameters st) = Some False \<and> library st \<noteq> ''H5P.Nil'')
   \<and> (p_displayAsButton (parameters st) = None \<longrightarrow> isButton st = True)
   \<and> (library st = ''H5P.Nil'' \<longrightarrow> isButton st = True)"
  by (cases "p_displayAsButton (parameters st)") (auto simp: isButton_def)

theorem isButton_false_iff_witness:
  "isButton (Interaction poster_parameters text_action) = False
   \<and> isButton (Interaction poster_parameters nil_action) = True
   \<and> isButton (Interaction example_parameters text_action) = True"
  using isButton_false_iff[of "Interaction poster_parameters text_action"]
    isButton_false_iff[of "Interaction poster_parameters nil_action"]
    isButton_false_iff[of "Interaction example_parameters text_action"]
  by (simp add: Interaction_def poster_parameters_def example_parameters_def
      text_action_def nil_action_def example_library)

section \<open>Removing the element\<close>

text \<open>
  Claim C8. \<^verbatim>\<open>remove()\<close>, with or without the \<^verbatim>\<open>updateSize\<close> flag, on an instance
  that has no visual element returns without throwing and leaves the whole state
  unchanged, the caller's \<^verbatim>\<open>parameters\<close> and \<^verbatim>\<open>action\<close> objects included.
\<close>

theorem remove_without_element_noop:
  "interaction st = None \<Longrightarrow> remove pg updateSize st = (Returns (), st)"
  by (simp add: remove_def)

theorem remove_without_element_noop_witness:
  "interaction (Interaction poster_parameters drag_action) = None
   \<and> remove example_page True (Interaction poster_parameters drag_action)
       = (Returns (), Interaction poster_parameters drag_action)"
proof -
  have a: "interaction (Interaction poster_parameters drag_action) = None"
    by (simp add: Interaction_def)
  from a remove_without_element_noop[OF a] show ?thesis by simp
qed

section \<open>Placing the label\<close>

text \<open>
  Claim C7. \<^verbatim>\<open>positionLabel(containerWidth)\<close> changes nothing unless the interaction
  is in button mode and has a label. Otherwise, with the button on display, the
  \<^verbatim>\<open>h5p-left-label\<close> class of the label is first removed, whatever it was, and then
  set exactly when the button's left offset (the integer \<^verbatim>\<open>parseInt\<close> reads from its
  style) plus the label's own left offset plus the label's width is strictly greater
  than \<open>containerWidth\<close>; for numbers that is \<open>cw < a + b + c\<close>, so a sum equal to the
  container width does not flip the label.
\<close>

theorem positionLabel_flips_iff:
  "(\<not> isButton st \<or> label st = None \<longrightarrow> positionLabel pg width st = (Returns (), st))
   \<and> (isButton st \<and> label st = Some l \<and> interaction st = Some e \<longrightarrow>
        positionLabel pg width st =
          (Returns (),
           st\<lparr> label := Some (l\<lparr> left_label :=
                  js_gt (js_add (js_add (parseInt (cssLeft pg e))
                                        (labelLeft pg (l\<lparr> left_label := False \<rparr>)))
                                (labelOuterWidth pg (l\<lparr> left_label := False \<rparr>))) width \<rparr>) \<rparr>))
   \<and> js_gt (js_add (js_add (Num a) (Num b)) (Num c)) (Num cw) = (cw < a + b + c)
   \<and> \<not> js_gt (js_add (js_add (Num a) (Num b)) (Num (cw - a - b))) (Num cw)"
  by (auto simp: positionLabel_def Let_def js_gt_def)

lemma parseInt_example: "parseInt ''107.5px'' = Num 107"
  by (simp add: parseInt_def is_space_def is_digit_def digit_value_def digits_value_def)

theorem positionLabel_flips_iff_witness:
  "positionLabel example_page (Num 200) shown_button
     = (Returns (), shown_button\<lparr> label := Some \<lparr> label_of = 0, left_label = True \<rparr> \<rparr>)
   \<and> positionLabel example_page (Num 217) shown_button = (Returns (), shown_button)
   \<and> positionLabel example_page (Num 200) shown_poster = (Returns (), shown_poster)"
proof -
  have b: "isButton shown_button \<and> label shown_button = Some \<lparr> label_of = 0, left_label = False \<rparr>
      \<and> interaction shown_button = Some example_button"
    by (simp add: shown_button_value isButton_def example_parameters_def)
  have p: "\<not> isButton shown_poster \<or> label shown_poster = None"
    by (simp add: shown_poster_value)
  have m: "parseInt (cssLeft example_page example_button) = Num 107"
    "labelLeft example_page \<lparr> label_of = 0, left_label = False \<rparr> = Num 30"
    "labelOuterWidth example_page \<lparr> label_of = 0, left_label = False \<rparr> = Num 80"
    by (simp_all add: example_page_def parseInt_example)
  have s: "shown_button\<lparr> label := Some \<lparr> label_of = 0, left_label = False \<rparr> \<rparr> = shown_button"
    by (simp add: shown_button_value)
  from positionLabel_flips_iff[of shown_button example_page "Num 200"
        "\<lparr> label_of = 0, left_label = False \<rparr>" example_button] b
  have 1: "positionLabel example_page (Num 200) shown_button
     = (Returns (), shown_button\<lparr> label := Some \<lparr> label_of = 0, left_label = True \<rparr> \<rparr>)"
    by (simp add: m js_gt_def)
  from positionLabel_flips_iff[of shown_button example_page "Num 217"
        "\<lparr> label_of = 0, left_label = False \<rparr>" example_button] b
  have 2: "positionLabel example_page (Num 217) shown_button = (Returns (), shown_button)"
    by (simp add: m js_gt_def s)
  from positionLabel_flips_iff[of shown_poster example_page "Num 200"] p
  have 3: "positionLabel example_page (Num 200) shown_poster = (Returns (), shown_poster)"
    by blast
  from 1 2 3 show ?thesis by simp
qed

text \<open>
  Claim C10. \<^verbatim>\<open>remove()\<close> clears \<^verbatim>\<open>$interaction\<close> and never \<^verbatim>\<open>$label\<close>. So once a
  button-mode interaction that has a label has been removed, \<^verbatim>\<open>positionLabel\<close> passes
  its guard and throws on the absent element instead of doing nothing. This holds for
  every state in button mode with a label, and in particular for the label made by
  \<^verbatim>\<open>toggle\<close> when it creates the button.
\<close>

theorem positionLabel_after_remove_throws:
  "(isButton st \<and> label st \<noteq> None \<and> fst (remove pg u st) = Returns () \<longrightarrow>
      interaction (snd (remove pg u st)) = None
      \<and> label (snd (remove pg u st)) = label st
      \<and> fst (positionLabel pg w (snd (remove pg u st))) = Throws TypeError)
   \<and> (isButton st \<and> wants_label pg st \<and> interaction st = None
       \<and> \<not> js_lt second (p_duration_from (parameters st))
       \<and> \<not> js_gt second (p_duration_to (parameters st)) \<longrightarrow>
      fst (positionLabel pg w (snd (remove pg False (snd (toggle pg second st)))))
        = Throws TypeError)"
proof (intro conjI impI)
  assume a: "isButton st \<and> label st \<noteq> None \<and> fst (remove pg u st) = Returns ()"
  then show "interaction (snd (remove pg u st)) = None" by (simp add: remove_clears)
  show "label (snd (remove pg u st)) = label st" by (simp add: remove_keeps)
  from a show "fst (positionLabel pg w (snd (remove pg u st))) = Throws TypeError"
    by (intro positionLabel_throws) (simp_all add: isButton_remove remove_keeps remove_clears)
next
  assume a: "isButton st \<and> wants_label pg st \<and> interaction st = None
       \<and> \<not> js_lt second (p_duration_from (parameters st))
       \<and> \<not> js_gt second (p_duration_to (parameters st))"
  let ?st1 = "snd (toggle pg second st)"
  from a have l: "label ?st1 \<noteq> None" "isButton ?st1"
    using toggle_creates_label[of st pg second] by simp_all
  have "fst (remove pg False ?st1) = Returns ()" by (simp add: remove_plain)
  with l show "fst (positionLabel pg w (snd (remove pg False ?st1))) = Throws TypeError"
    by (intro positionLabel_throws) (simp_all add: isButton_remove remove_keeps remove_clears)
qed

theorem positionLabel_after_remove_throws_witness:
  "fst (positionLabel example_page (Num 200)
         (snd (remove example_page False
                (snd (toggle example_page (Num 7)
                       (Interaction example_parameters text_action))))))
     = Throws TypeError
   \<and> label (snd (remove example_page False shown_button)) = label shown_button
   \<and> interaction (snd (remove example_page False shown_button)) = None"
proof -
  let ?st = "Interaction example_parameters text_action"
  have a: "isButton ?st \<and> wants_label example_page ?st \<and> interaction ?st = None
       \<and> \<not> js_lt (Num 7) (p_duration_from (parameters ?st))
       \<and> \<not> js_gt (Num 7) (p_duration_to (parameters ?st))"
    by (simp add: Interaction_def example_parameters_def isButton_def wants_label_def
        example_page_def js_gt_def)
  have b: "isButton shown_button \<and> label shown_button \<noteq> None
       \<and> fst (remove example_page False shown_button) = Returns ()"
    by (simp add: shown_button_value isButton_def example_parameters_def remove_plain)
  from positionLabel_after_remove_throws[of ?st example_page False "Num 200" "Num 7"] a
    positionLabel_after_remove_throws[of shown_button example_page False "Num 200" "Num 7"] b
  show ?thesis by blast
qed

section \<open>Non-numeric seconds\<close>

text \<open>
  Claim C9. When \<^verbatim>\<open>toggle\<close> is called with \<^verbatim>\<open>undefined\<close> or \<^verbatim>\<open>NaN\<close>, both
  comparisons with the ends of the window are false, whatever the window is. The call
  is then treated as in-window: an existing element is kept (and nothing returned), and
  with no element one is created. \<^verbatim>\<open>setSize\<close> relies on this for the drag question:
  it passes \<^verbatim>\<open>parameters.from\<close>, which is \<^verbatim>\<open>undefined\<close>, so after \<^verbatim>\<open>remove(true)\<close>
  has returned a new element is created, wherever the video is.
\<close>

theorem toggle_non_numeric_in_window:
  assumes "second = Undefined \<or> second = NaN"
  shows "\<not> js_lt second f \<and> \<not> js_gt second t
       \<and> (interaction st \<noteq> None \<longrightarrow> toggle pg second st = (Returns None, st))
       \<and> (interaction st = None \<longrightarrow>
            (\<exists>e. fst (toggle pg second st) = Returns (Some e)
                \<and> interaction (snd (toggle pg second st)) = Some e)
            \<and> created (snd (toggle pg second st)) = created st + 1)
       \<and> (library st = ''H5P.DragQuestion'' \<and> p_from (parameters st) = second
            \<and> (interaction st = None \<or> a_question_size (action st) \<noteq> None) \<longrightarrow>
              interaction (snd (setSize pg w h st)) \<noteq> None
            \<and> created (snd (setSize pg w h st)) = created st + 1)"
proof -
  have w: "\<not> js_lt second f" "\<not> js_gt second t" for f t
    using assms by (auto simp: js_gt_def)
  have tg: "(interaction st \<noteq> None \<longrightarrow> toggle pg second st = (Returns None, st))
       \<and> (interaction st = None \<longrightarrow>
            (\<exists>e. fst (toggle pg second st) = Returns (Some e)
                \<and> interaction (snd (toggle pg second st)) = Some e)
            \<and> created (snd (toggle pg second st)) = created st + 1)"
  proof (cases "interaction st")
    case None
    then obtain e where "fst (toggle pg second st) = Returns (Some e)"
      "interaction (snd (toggle pg second st)) = Some e"
      "created (snd (toggle pg second st)) = created st + 1"
      using toggle_created[of st second pg] w by blast
    with None show ?thesis by auto
  next
    case (Some e)
    then have "toggle pg second st = (Returns None, st)"
      using w by (intro toggle_in_window_existing) simp_all
    with Some show ?thesis by simp
  qed
  have sz: "interaction (snd (setSize pg w h st)) \<noteq> None
            \<and> created (snd (setSize pg w h st)) = created st + 1"
    if "library st = ''H5P.DragQuestion'' \<and> p_from (parameters st) = second
            \<and> (interaction st = None \<or> a_question_size (action st) \<noteq> None)"
    using setSize_drag[of st pg w h] that assms by auto
  from w tg sz show ?thesis by blast
qed

theorem toggle_non_numeric_in_window_witness:
  "\<not> js_lt Undefined (Num 5) \<and> \<not> js_gt Undefined (Num 10)
   \<and> toggle example_page Undefined shown_button = (Returns None, shown_button)
   \<and> interaction (snd (toggle example_page NaN
                         (Interaction example_parameters text_action))) \<noteq> None
   \<and> interaction (snd (setSize example_page (Num 20) (Num 10)
                         (Interaction poster_parameters drag_action))) \<noteq> None
   \<and> created (snd (setSize example_page (Num 20) (Num 10) shown_drag_poster)) = 2"
proof -
  let ?st = "Interaction example_parameters text_action"
  let ?dq = "Interaction poster_parameters drag_action"
  have a: "interaction shown_button \<noteq> None" "interaction ?st = None"
    by (simp_all add: shown_button_value Interaction_def)
  have d: "library ?dq = ''H5P.DragQuestion'' \<and> p_from (parameters ?dq) = Undefined
      \<and> (interaction ?dq = None \<or> a_question_size (action ?dq) \<noteq> None)"
    by (simp add: Interaction_def drag_action_def example_library poster_parameters_def
        example_parameters_def)
  have e: "library shown_drag_poster = ''H5P.DragQuestion''
      \<and> p_from (parameters shown_drag_poster) = Undefined
      \<and> (interaction shown_drag_poster = None
          \<or> a_question_size (action shown_drag_poster) \<noteq> None)"
    "created shown_drag_poster = 1"
    by (simp_all add: shown_drag_poster_value drag_action_def poster_parameters_def
        example_parameters_def)
  have 1: "\<not> js_lt Undefined (Num 5) \<and> \<not> js_gt Undefined (Num 10)
      \<and> toggle example_page Undefined shown_button = (Returns None, shown_button)"
    using toggle_non_numeric_in_window[of Undefined "Num 5" "Num 10" shown_button example_page]
      a by simp
  have 2: "interaction (snd (toggle example_page NaN ?st)) \<noteq> None"
    using toggle_non_numeric_in_window[of NaN "Num 5" "Num 10" ?st example_page] a by auto
  have 3: "interaction (snd (setSize example_page (Num 20) (Num 10) ?dq)) \<noteq> None"
    using toggle_non_numeric_in_window[of Undefined "Num 5" "Num 10" ?dq example_page
        "Num 20" "Num 10"] d by blast
  have 4: "created (snd (setSize example_page (Num 20) (Num 10) shown_drag_poster)) = 2"
    using toggle_non_numeric_in_window[of Undefined "Num 5" "Num 10" shown_drag_poster
        example_page "Num 20" "Num 10"] e by auto
  from 1 2 3 4 show ?thesis by simp
qed

section \<open>Changing the size\<close>

text \<open>
  Claim C3, as amended. A call of \<^verbatim>\<open>setSize\<close> made while a sub-content instance
  exists (one exists once a poster has been created; for the drag question, the size
  settings that \<^verbatim>\<open>remove(true)\<close> reads must be present when an element is on
  display) returns, and a call that returns has sent exactly one \<^verbatim>\<open>resize\<close> within
  the call, to the instance that \<^verbatim>\<open>instance\<close> then holds; a call that throws has
  sent none. This holds for every content type. For a type other than the drag
  question the instance and the pending callbacks are unchanged, and the call returns
  exactly when an instance exists. For a drag question shown as a poster (with
  \<^verbatim>\<open>parameters.from\<close> undefined) the one notification goes to the instance of the
  poster recreated by the call, for which \<^verbatim>\<open>createPoster\<close> has also queued its
  next-tick \<^verbatim>\<open>resize\<close>.
\<close>

theorem setSize_resize_notification:
  assumes "setSize pg w h st = (r, st')"
  shows "(case r of Returns _ \<Rightarrow> \<exists>i. the_instance st' = Some i \<and> resizes st' = resizes st @ [i]
                  | Throws _ \<Rightarrow> resizes st' = resizes st)
       \<and> (the_instance st \<noteq> None
            \<and> (library st = ''H5P.DragQuestion'' \<longrightarrow>
                  interaction st = None \<or> a_question_size (action st) \<noteq> None) \<longrightarrow>
              r = Returns ())
       \<and> (library st \<noteq> ''H5P.DragQuestion'' \<longrightarrow>
              (r = Returns ()) = (the_instance st \<noteq> None)
            \<and> the_instance st' = the_instance st \<and> timers st' = timers st)
       \<and> (library st = ''H5P.DragQuestion'' \<and> \<not> isButton st
            \<and> p_from (parameters st) = Undefined
            \<and> (interaction st = None \<or> a_question_size (action st) \<noteq> None) \<longrightarrow>
              r = Returns () \<and> the_instance st' = Some (instances st)
            \<and> resizes st' = resizes st @ [instances st]
            \<and> timers st' = timers st @ [TriggerResize])"
proof -
  have 1: "case r of Returns _ \<Rightarrow> \<exists>i. the_instance st' = Some i \<and> resizes st' = resizes st @ [i]
                  | Throws _ \<Rightarrow> resizes st' = resizes st"
    using assms by (rule setSize_notifies)
  have 2: "(r = Returns ()) = (the_instance st \<noteq> None)
            \<and> the_instance st' = the_instance st \<and> timers st' = timers st"
    if "library st \<noteq> ''H5P.DragQuestion''"
  proof -
    from that assms
    have "trigger_resize (st\<lparr> parameters := (parameters st)\<lparr> p_width := w, p_height := h \<rparr> \<rparr>)
            = (r, st')"
      by (simp add: setSize_other)
    then show ?thesis by (auto simp: trigger_resize_def split: option.splits)
  qed
  have 3: "r = Returns () \<and> the_instance st' = Some (instances st)
            \<and> resizes st' = resizes st @ [instances st]
            \<and> timers st' = timers st @ [TriggerResize]"
    if a: "library st = ''H5P.DragQuestion'' \<and> \<not> isButton st
            \<and> p_from (parameters st) = Undefined
            \<and> (interaction st = None \<or> a_question_size (action st) \<noteq> None)"
  proof -
    from assms have "r = fst (setSize pg w h st)" "st' = snd (setSize pg w h st)" by simp_all
    with a setSize_drag[of st pg w h] show ?thesis by simp
  qed
  have 4: "r = Returns ()"
    if "the_instance st \<noteq> None
        \<and> (library st = ''H5P.DragQuestion'' \<longrightarrow>
              interaction st = None \<or> a_question_size (action st) \<noteq> None)"
    using setSize_returns[of st pg w h] that assms by simp
  from 1 2 3 4 show ?thesis by blast
qed

theorem setSize_resize_notification_witness:
  "fst (setSize example_page (Num 20) (Num 10) shown_drag_poster) = Returns ()
   \<and> the_instance (snd (setSize example_page (Num 20) (Num 10) shown_drag_poster)) = Some 1
   \<and> resizes (snd (setSize example_page (Num 20) (Num 10) shown_drag_poster)) = [1]
   \<and> timers (snd (setSize example_page (Num 20) (Num 10) shown_drag_poster))
       = [TriggerResize, TriggerResize]
   \<and> fst (setSize example_page (Num 20) (Num 10) shown_poster) = Returns ()
   \<and> the_instance (snd (setSize example_page (Num 20) (Num 10) shown_poster)) = Some 0"
proof -
  let ?d = "setSize example_page (Num 20) (Num 10) shown_drag_poster"
  let ?p = "setSize example_page (Num 20) (Num 10) shown_poster"
  have e: "library shown_drag_poster = ''H5P.DragQuestion'' \<and> \<not> isButton shown_drag_poster
      \<and> p_from (parameters shown_drag_poster) = Undefined
      \<and> (interaction shown_drag_poster = None
          \<or> a_question_size (action shown_drag_poster) \<noteq> None)"
    by (simp add: shown_drag_poster_value drag_action_def poster_parameters_def
        example_parameters_def isButton_def)
  have v: "instances shown_drag_poster = 1" "resizes shown_drag_poster = []"
    "timers shown_drag_poster = [TriggerResize]"
    by (simp_all add: shown_drag_poster_value)
  have q: "library shown_poster \<noteq> ''H5P.DragQuestion''" "the_instance shown_poster = Some 0"
    by (simp_all add: shown_poster_value)
  have 1: "fst ?d = Returns () \<and> the_instance (snd ?d) = Some 1
      \<and> resizes (snd ?d) = [1] \<and> timers (snd ?d) = [TriggerResize, TriggerResize]"
    using setSize_resize_notification[of example_page "Num 20" "Num 10" shown_drag_poster
        "fst ?d" "snd ?d"] e
    by (auto simp: v)
  have 2: "fst ?p = Returns () \<and> the_instance (snd ?p) = Some 0"
    using setSize_resize_notification[of example_page "Num 20" "Num 10" shown_poster
        "fst ?p" "snd ?p"] q
    by auto
  from 1 2 show ?thesis by simp
qed

text \<open>The claim as it was stated fails for an interaction in button mode: the button of
  the example is on display, no sub-content instance exists, and \<^verbatim>\<open>setSize\<close> throws
  after storing the size, with no \<^verbatim>\<open>resize\<close> sent.\<close>

theorem setSize_button_mode_counterexample:
  "isButton shown_button \<and> interaction shown_button = Some example_button
   \<and> fst (setSize example_page (Num 20) (Num 10) shown_button) = Throws TypeError
   \<and> resizes (snd (setSize example_page (Num 20) (Num 10) shown_button)) = []"
  by (simp add: setSize_def trigger_resize_def Let_def shown_button_value isButton_def
      example_parameters_def)

section \<open>Fitting an image\<close>

text \<open>
  Claim C4. \<^verbatim>\<open>resizeImage\<close> divides the pixel size by 16, then fits the height, then
  fits the width, and does nothing more: on every positive natural size its result is
  that of the three steps of the specification. The result never exceeds \<open>max\<close> in
  either axis and has the aspect ratio of the natural size; this holds for every
  positive natural size, so in particular for one that exceeds \<open>max\<close> in both axes.
  (The one excluded maximum, height zero with a negative width, makes the code divide
  zero by zero.) Natural 1600 by 900 px with a maximum of 40 by 30 em gives 40 by 22.5 em.
  Numbers are exact here: the rounding of floating point is not modelled.
\<close>

theorem resizeImage_fits:
  assumes "0 < w" and "0 < h" and "mh = 0 \<longrightarrow> 0 \<le> mw"
  shows "(\<exists>rw rh.
      snd (resizeImage f \<lparr> d_width = Num mw, d_height = Num mh \<rparr>
                         \<lparr> d_width = Num w, d_height = Num h \<rparr>)
        = \<lparr> d_width = Num rw, d_height = Num rh \<rparr>
      \<and> rw \<le> mw \<and> rh \<le> mh \<and> rw * h = rh * w
      \<and> (rw, rh) = spec_fit (mw, mh) (w, h))
    \<and> snd (resizeImage f \<lparr> d_width = Num 40, d_height = Num 30 \<rparr>
                          \<lparr> d_width = Num 1600, d_height = Num 900 \<rparr>)
        = \<lparr> d_width = Num 40, d_height = Num 22.5 \<rparr>"
proof
  show "\<exists>rw rh.
      snd (resizeImage f \<lparr> d_width = Num mw, d_height = Num mh \<rparr>
                         \<lparr> d_width = Num w, d_height = Num h \<rparr>)
        = \<lparr> d_width = Num rw, d_height = Num rh \<rparr>
      \<and> rw \<le> mw \<and> rh \<le> mh \<and> rw * h = rh * w
      \<and> (rw, rh) = spec_fit (mw, mh) (w, h)"
    using assms by (rule resizeImage_final)
  show "snd (resizeImage f \<lparr> d_width = Num 40, d_height = Num 30 \<rparr>
                          \<lparr> d_width = Num 1600, d_height = Num 900 \<rparr>)
        = \<lparr> d_width = Num 40, d_height = Num 22.5 \<rparr>"
    by (simp add: resizeImage_def Let_def js_gt_def)
qed

theorem resizeImage_fits_witness:
  "(\<exists>rw rh.
      snd (resizeImage (Num 16) \<lparr> d_width = Num 40, d_height = Num 30 \<rparr>
                                \<lparr> d_width = Num 1600, d_height = Num 900 \<rparr>)
        = \<lparr> d_width = Num rw, d_height = Num rh \<rparr>
      \<and> rw \<le> 40 \<and> rh \<le> 30 \<and> rw * 900 = rh * 1600
      \<and> (rw, rh) = spec_fit (40, 30) (1600, 900))
   \<and> spec_fit (40, 30) (1600, 900) = (40, 22.5)"
proof -
  have a: "(0::real) < 1600" "(0::real) < 900" "(30::real) = 0 \<longrightarrow> (0::real) \<le> 40"
    by simp_all
  have s: "spec_fit (40, 30) (1600, 900) = (40, 22.5)"
    by (simp add: spec_fit_def Let_def)
  from resizeImage_fits[OF a, of "Num 16"] s show ?thesis by blast
qed

end
